theory Spec2Isabelle
  imports Complex_Main "HOL-Library.Word"
begin

section \<open>Go values used by the adapter\<close>

text \<open>
  Go's \<^verbatim>\<open>int\<close> is a 64-bit two's complement integer on the platforms the driver
  supports; arithmetic wraps and comparisons are signed.
\<close>

type_synonym go_int = "64 word"

text \<open>
  A value of type \<^verbatim>\<open>interface{}\<close> as it occurs in request bodies, stored documents and
  decoded JSON. A finite \<^verbatim>\<open>float64\<close> is represented by the real number it denotes.
\<close>

datatype go_value =
    VNil
  | VBool bool
  | VInt32 "32 word"
  | VFloat64 real
  | VString string
  | VSlice "go_value list"
  | VMap "string \<Rightarrow> go_value option"

text \<open>
  The driver's \<^verbatim>\<open>error\<close> values. \<^verbatim>\<open>mgo.ErrNotFound\<close> is a sentinel compared by
  identity; every other driver failure carries its message.
\<close>

datatype go_error = ErrNotFound | DriverError string

fun Error :: "go_error \<Rightarrow> string" where
  "Error ErrNotFound = ''not found''"
| "Error (DriverError m) = m"

text \<open>\<^verbatim>\<open>utils.Error\<close>: an HTTP-style status code and a message.\<close>

record utils_Error =
  Code :: go_int
  Message :: string

definition StatusBadRequest :: go_int where "StatusBadRequest = 400"
definition StatusNotFound :: go_int where "StatusNotFound = 404"
definition StatusInternalServerError :: go_int where "StatusInternalServerError = 500"

subsection \<open>constants.go\<close>

definition ID :: string where "ID = ''_id''"
definition CreatedAt :: string where "CreatedAt = ''createdAt''"
definition UpdatedAt :: string where "UpdatedAt = ''updatedAt''"

subsection \<open>Log output\<close>

text \<open>
  A log line written through logrus: the structured fields and the message. The functions
  below return the lines they emit, in order.
\<close>

datatype log_value =
    LString string
  | LInt go_int
  | LData "string \<Rightarrow> go_value option"
  | LParameters "string \<Rightarrow> string list option option"

record log_entry =
  log_fields :: "(string \<times> log_value) list"
  log_msg :: string

section \<open>retry\<close>

text \<open>
  \<^verbatim>\<open>retry(attempts, function)\<close> calls a closure until it succeeds, fails with
  \<^verbatim>\<open>mgo.ErrNotFound\<close>, or the loop counter \<open>i\<close> reaches \<open>attempts - 1\<close>. The closure
  has effects (it talks to the database and writes captured variables), so it is a state
  transformer on the state \<open>'s\<close> it can touch. \<open>retry_loop\<close> is the \<^verbatim>\<open>for\<close> loop from
  counter value \<open>i\<close>; the line logged after the \<^verbatim>\<open>break\<close> is emitted in the branch
  that breaks.
\<close>

function retry_loop ::
  "go_int \<Rightarrow> ('s \<Rightarrow> go_error option \<times> 's) \<Rightarrow> go_int \<Rightarrow> 's \<Rightarrow> log_entry list
    \<Rightarrow> go_error option \<times> 's \<times> log_entry list" where
  "retry_loop attempts function i s lg =
     (case function s of
        (None, s') \<Rightarrow> (None, s', lg)
      | (Some err, s') \<Rightarrow>
          if err = ErrNotFound then (Some err, s', lg)
          else if attempts - 1 \<le>s i then
            (Some err, s', lg @ [\<lparr>log_fields = [(''reason'', LString (Error err)), (''attempt'', LInt attempts)],
                                   log_msg = ''Mongo Error: Last attempt failed. Not retrying.''\<rparr>])
          else
            retry_loop attempts function (i + 1) s'
              (lg @ [\<lparr>log_fields = [(''reason'', LString (Error err)), (''attempt'', LInt (i + 1))],
                       log_msg = ''Mongo Error: Attempt failed. Retrying.''\<rparr>]))"
  by pat_completeness auto

termination retry_loop
proof (relation "measure (\<lambda>(attempts, function, i, s, lg). nat (sint (attempts - 1) - sint i))")
  show "wf (measure (\<lambda>(attempts :: go_int, function :: 's \<Rightarrow> go_error option \<times> 's, i :: go_int,
              s :: 's, lg  :: log_entry list). nat (sint (attempts - 1) - sint i)))"
    by simp
next
  fix attempts i :: go_int
  assume "\<not> attempts - 1 \<le>s i"
  then have lt: "sint i < sint (attempts - 1)"
    by (simp add: word_sle_eq)
  have "sint (attempts - 1) < 2 ^ (LENGTH(64) - 1)"
    by (rule sint_lt)
  moreover have "- (2 ^ (LENGTH(64) - 1)) \<le> sint i"
    by (rule sint_ge)
  ultimately have "- (2 ^ 63) \<le> sint i + 1" and "sint i + 1 < 2 ^ 63"
    using lt by simp_all
  then have "signed_take_bit 63 (sint i + 1) = sint i + 1"
    by (simp add: signed_take_bit_int_eq_self)
  then have "sint (i + 1) = sint i + 1"
    by (simp add: sint_word_ariths)
  with lt have "nat (sint (attempts - 1) - sint (i + 1)) < nat (sint (attempts - 1) - sint i)"
    by simp
  then show "\<And>function s x y s' lg err.
      ((attempts, function, i + 1, s', lg @ [\<lparr>log_fields = [(''reason'', LString (Error err)), (''attempt'', LInt (i + 1))],
          log_msg = ''Mongo Error: Attempt failed. Retrying.''\<rparr>]),
       (attempts, function :: 's \<Rightarrow> go_error option \<times> 's, i, s :: 's, lg)) \<in>
      measure (\<lambda>(attempts, function, i, s, lg). nat (sint (attempts - 1) - sint i))"
    by simp
qed

declare retry_loop.simps [simp del]

definition retry ::
  "go_int \<Rightarrow> ('s \<Rightarrow> go_error option \<times> 's) \<Rightarrow> 's \<Rightarrow> go_error option \<times> 's \<times> log_entry list" where
  "retry attempts function s = retry_loop attempts function 0 s []"


section \<open>Conversions and the JSON decoder\<close>

text \<open>
  \<^verbatim>\<open>int32(x)\<close> of a 64-bit integer keeps the low 32 bits. \<^verbatim>\<open>float64(x)\<close> rounds to
  the nearest number with a 53-bit significand, ties to even; every 64-bit integer is in
  the range of finite \<^verbatim>\<open>float64\<close> values.
\<close>

definition int32 :: "go_int \<Rightarrow> 32 word" where
  "int32 x = ucast x"

definition float64_of_int64 :: "go_int \<Rightarrow> real" where
  "float64_of_int64 x =
     (let n = sint x;
          a = \<bar>n\<bar>;
          e = (case find (\<lambda>e. a < 2 ^ (53 + e)) [0..<12] of Some e \<Rightarrow> e | None \<Rightarrow> 11);
          q = a div 2 ^ e;
          r = a mod 2 ^ e;
          m = (if 2 ^ e < 2 * r \<or> (2 * r = 2 ^ e \<and> odd q) then q + 1 else q)
      in of_int (sgn n * m * 2 ^ e))"

text \<open>
  \<^verbatim>\<open>int(x)\<close> of a \<^verbatim>\<open>float64\<close> discards the fraction. When the result does not fit
  the integer type the conversion still succeeds, with a value that depends on the
  platform; \<open>int_of_unrepresentable\<close> is that value.

  \<^verbatim>\<open>json.Unmarshal([]byte(s), &v)\<close> with \<open>v\<close> a nil \<^verbatim>\<open>interface{}\<close> belongs to the
  standard library: \<open>json_Unmarshal\<close> gives the value left in \<open>v\<close> (\<open>VNil\<close> when
  nothing was stored) and the message of the error returned, if any.
\<close>

record go_runtime =
  json_Unmarshal :: "string \<Rightarrow> go_value \<times> string option"
  int_of_unrepresentable :: "real \<Rightarrow> go_int"

definition trunc_toward_zero :: "real \<Rightarrow> int" where
  "trunc_toward_zero x = (if 0 \<le> x then \<lfloor>x\<rfloor> else \<lceil>x\<rceil>)"

definition int_of_float64 :: "go_runtime \<Rightarrow> real \<Rightarrow> go_int" where
  "int_of_float64 rt x =
     (let t = trunc_toward_zero x
      in if - (2 ^ 63) \<le> t \<and> t < 2 ^ 63 then word_of_int t else int_of_unrepresentable rt x)"

text \<open>\<^verbatim>\<open>reflect.TypeOf(v)\<close> is nil for a nil interface, otherwise it has a kind.\<close>

datatype kind = KBool | KInt32 | KFloat64 | KString | KSlice | KMap

fun TypeOf_Kind :: "go_value \<Rightarrow> kind option" where
  "TypeOf_Kind VNil = None"
| "TypeOf_Kind (VBool b) = Some KBool"
| "TypeOf_Kind (VInt32 n) = Some KInt32"
| "TypeOf_Kind (VFloat64 x) = Some KFloat64"
| "TypeOf_Kind (VString s) = Some KString"
| "TypeOf_Kind (VSlice vs) = Some KSlice"
| "TypeOf_Kind (VMap m) = Some KMap"

text \<open>A run that does not return: the runtime panics of the modelled code.\<close>

datatype panic = IndexOutOfRange | AssignmentToNilMap | InterfaceConversion

definition apostrophe :: string where
  "apostrophe = [CHR 0x27]"

section \<open>Parameter extraction\<close>

text \<open>
  \<^verbatim>\<open>map[string][]string\<close>: a key is absent or bound to a slice, and a slice is nil
  (\<open>None\<close>) or a list of strings. Indexing the map with a missing key gives the nil
  slice; indexing a slice beyond its length panics.
\<close>

type_synonym parameters = "string \<Rightarrow> string list option option"

definition map_index :: "parameters \<Rightarrow> string \<Rightarrow> string list option" where
  "map_index ps key = (case ps key of None \<Rightarrow> None | Some paramArray \<Rightarrow> paramArray)"

fun slice_index0 :: "string list option \<Rightarrow> panic + string" where
  "slice_index0 None = Inl IndexOutOfRange"
| "slice_index0 (Some []) = Inl IndexOutOfRange"
| "slice_index0 (Some (p # ps)) = Inr p"

definition extractJsonParameter ::
  "go_runtime \<Rightarrow> parameters \<Rightarrow> string \<Rightarrow> panic + (go_value \<times> bool \<times> utils_Error option)" where
  "extractJsonParameter rt ps key =
     (case ps key of
        None \<Rightarrow> Inr (VNil, False, None)
      | Some paramArray \<Rightarrow>
          (case slice_index0 paramArray of
             Inl p \<Rightarrow> Inl p
           | Inr param \<Rightarrow>
               (case json_Unmarshal rt param of
                  (v, None) \<Rightarrow> Inr (v, True, None)
                | (v, Some parseErr) \<Rightarrow>
                    Inr (v, True,
                      Some \<lparr>Code = StatusBadRequest,
                            Message = ''Parsing '' @ key @ '' parameter failed. Reason: '' @ parseErr\<rparr>))))"

definition extractStringParameter ::
  "go_runtime \<Rightarrow> parameters \<Rightarrow> string \<Rightarrow> panic + (string \<times> bool \<times> utils_Error option)" where
  "extractStringParameter rt ps key =
     (case ps key of
        None \<Rightarrow> Inr ([], False, None)
      | Some paramArray \<Rightarrow>
          (case slice_index0 paramArray of
             Inl p \<Rightarrow> Inl p
           | Inr param \<Rightarrow>
               (let (paramValue, parseErr) = json_Unmarshal rt param;
                    err = (case parseErr of
                             None \<Rightarrow> None
                           | Some reason \<Rightarrow>
                               Some \<lparr>Code = StatusBadRequest,
                                     Message = ''Parsing '' @ key @ '' parameter failed. Reason: '' @ reason\<rparr>)
                in if TypeOf_Kind paramValue \<noteq> Some KString then
                     Inr ([], True,
                       Some \<lparr>Code = StatusBadRequest,
                             Message = ''The key '' @ apostrophe @ key @ apostrophe @ '' must be a valid string.''\<rparr>)
                   else (case paramValue of
                           VString v \<Rightarrow> Inr (v, True, err)
                         | _ \<Rightarrow> Inl InterfaceConversion))))"

definition extractIntParameter ::
  "go_runtime \<Rightarrow> parameters \<Rightarrow> string \<Rightarrow> panic + (go_int \<times> bool \<times> utils_Error option)" where
  "extractIntParameter rt ps key =
     (case ps key of
        None \<Rightarrow> Inr (0, False, None)
      | Some paramArray \<Rightarrow>
          (case slice_index0 paramArray of
             Inl p \<Rightarrow> Inl p
           | Inr param \<Rightarrow>
               (let (paramValue, parseErr) = json_Unmarshal rt param;
                    err = (case parseErr of
                             None \<Rightarrow> None
                           | Some reason \<Rightarrow>
                               Some \<lparr>Code = StatusBadRequest,
                                     Message = ''Parsing '' @ key @ '' parameter failed. Reason: '' @ reason\<rparr>)
                in if TypeOf_Kind paramValue \<noteq> Some KFloat64 then
                     Inr (0, True,
                       Some \<lparr>Code = StatusBadRequest,
                             Message = ''The key '' @ apostrophe @ key @ apostrophe @ '' must be an integer.''\<rparr>)
                   else (case paramValue of
                           VFloat64 x \<Rightarrow> Inr (int_of_float64 rt x, True, err)
                         | _ \<Rightarrow> Inl InterfaceConversion))))"

section \<open>The database driver\<close>

text \<open>
  The operations of the mgo driver on a collection of the provider's database, as
  transformers of the database state \<open>'db\<close>. \<open>FindId_One\<close> is
  \<^verbatim>\<open>FindId(id).One(&m)\<close>, giving the document left in the map on success;
  \<open>Pipe_All\<close> and \<open>Find_All\<close> are \<^verbatim>\<open>Pipe(p).All(&results)\<close> and
  \<^verbatim>\<open>Find(q)...All(&results)\<close>, taking the slice held by \<open>results\<close> (\<open>None\<close> when
  nil) and giving the slice left there.
\<close>

type_synonym document = "string \<Rightarrow> go_value option"

record find_query =
  selector :: go_value
  skip_n :: go_int
  limit_n :: go_int
  sort_fields :: "string list"

record 'db driver =
  Insert :: "string \<Rightarrow> document \<Rightarrow> 'db \<Rightarrow> go_error option \<times> 'db"
  FindId_One :: "string \<Rightarrow> string \<Rightarrow> 'db \<Rightarrow> (go_error + document) \<times> 'db"
  Pipe_All :: "string \<Rightarrow> go_value \<Rightarrow> document list option \<Rightarrow> 'db
                \<Rightarrow> (go_error option \<times> document list option) \<times> 'db"
  Find_All :: "string \<Rightarrow> find_query \<Rightarrow> document list option \<Rightarrow> 'db
                \<Rightarrow> (go_error option \<times> document list option) \<times> 'db"
  UpdateId :: "string \<Rightarrow> string \<Rightarrow> document \<Rightarrow> 'db \<Rightarrow> go_error option \<times> 'db"
  RemoveId :: "string \<Rightarrow> string \<Rightarrow> 'db \<Rightarrow> go_error option \<times> 'db"


section \<open>The data provider\<close>

text \<open>
  The provider is connected; each operation works on its own copy of the session and
  closes it when it returns, which leaves nothing to observe here. A request body or
  response of type \<^verbatim>\<open>map[string]interface{}\<close> is nil (\<open>None\<close>) or a map. An operation
  gives its two results \<^verbatim>\<open>(response, err)\<close>, the database state it leaves, and the
  lines it logged. \<open>now\<close> is the value of \<^verbatim>\<open>time.Now().Unix()\<close> at the call and
  \<open>objectId\<close> the value of \<^verbatim>\<open>bson.NewObjectId().Hex()\<close>.
\<close>

type_synonym result = "document option \<times> utils_Error option"

subsection \<open>Create\<close>

definition Create ::
  "'db driver \<Rightarrow> go_int \<Rightarrow> string \<Rightarrow> string \<Rightarrow> document option \<Rightarrow> 'db
    \<Rightarrow> (panic + result) \<times> 'db \<times> log_entry list" where
  "Create drv now objectId collection data db =
     (let createdAt = VFloat64 (float64_of_int64 now)
      in case data of
           None \<Rightarrow> (Inl AssignmentToNilMap, db, [])
         | Some d \<Rightarrow>
             (let d = (if d ID = None then d(ID \<mapsto> VString objectId) else d);
                  d = d(CreatedAt \<mapsto> createdAt);
                  d = d(UpdatedAt \<mapsto> createdAt);
                  (insertError, db', lg) = retry 5 (Insert drv collection d) db
              in case insertError of
                   Some e \<Rightarrow>
                     (Inr (None, Some \<lparr>Code = StatusInternalServerError, Message = Error e\<rparr>),
                      db',
                      lg @ [\<lparr>log_fields = [(''reason'', LString (Error e)),
                                            (''collection'', LString collection),
                                            (''data'', LData d)],
                             log_msg = ''Mongo Error: Inserting item failed.''\<rparr>])
                 | None \<Rightarrow>
                     (Inr (Some [ID \<mapsto> (case d ID of Some v \<Rightarrow> v | None \<Rightarrow> VNil),
                                 CreatedAt \<mapsto> createdAt,
                                 UpdatedAt \<mapsto> createdAt],
                           None),
                      db', lg)))"

subsection \<open>Query\<close>

definition Query ::
  "go_runtime \<Rightarrow> 'db driver \<Rightarrow> string \<Rightarrow> parameters \<Rightarrow> 'db
    \<Rightarrow> (panic + result) \<times> 'db \<times> log_entry list" where
  "Query rt drv collection ps db =
     (let response = Map.empty
      in if map_index ps ''aggregate'' \<noteq> None \<and> map_index ps ''where'' \<noteq> None then
           (Inr (Some response,
                 Some \<lparr>Code = StatusBadRequest,
                       Message = ''Where and aggregate parameters cannot be used at the same request.''\<rparr>),
            db,
            [\<lparr>log_fields = [],
              log_msg = ''Mongo Error: Where and aggregate parameters cannot be used at the same request.''\<rparr>])
         else
          (case extractJsonParameter rt ps ''where'' of
             Inl p \<Rightarrow> (Inl p, db, [])
           | Inr (whereParam, hasWhereParam, whereParamErr) \<Rightarrow>
          (case extractJsonParameter rt ps ''aggregate'' of
             Inl p \<Rightarrow> (Inl p, db, [])
           | Inr (aggregateParam, hasAggregateParam, aggregateParamErr) \<Rightarrow>
          (case extractStringParameter rt ps ''sort'' of
             Inl p \<Rightarrow> (Inl p, db, [])
           | Inr (sortParam, hasSortParam, sortParamErr) \<Rightarrow>
          (case extractIntParameter rt ps ''limit'' of
             Inl p \<Rightarrow> (Inl p, db, [])
           | Inr (limitParam, hasLimitParam, limitParamErr) \<Rightarrow>
          (case extractIntParameter rt ps ''skip'' of
             Inl p \<Rightarrow> (Inl p, db, [])
           | Inr (skipParam, hasSkipParam, skipParamErr) \<Rightarrow>
             (let err = None;
                  err = (if aggregateParamErr \<noteq> None then aggregateParamErr else err);
                  err = (if whereParamErr \<noteq> None then whereParamErr else err);
                  err = (if sortParamErr \<noteq> None then sortParamErr else err);
                  err = (if limitParamErr \<noteq> None then limitParamErr else err);
                  err = (if skipParamErr \<noteq> None then skipParamErr else err)
              in if err \<noteq> None then (Inr (Some response, err), db, [])
                 else if hasWhereParam \<and> hasAggregateParam then
                   (Inr (Some response,
                         Some \<lparr>Code = StatusInternalServerError,
                               Message = ''Aggregation cannot be used with where parameter.''\<rparr>),
                    db, [])
                 else
                   (let (getErr, (db', results), lg) =
                          (if hasAggregateParam then
                             retry 5
                               (\<lambda>(db, results).
                                   case Pipe_All drv collection aggregateParam results db of
                                     ((e, results'), db') \<Rightarrow> (e, (db', results')))
                               (db, None)
                           else
                             (let query = \<lparr>selector = whereParam, skip_n = skipParam,
                                           limit_n = limitParam, sort_fields = []\<rparr>;
                                  query = (if hasSortParam then query\<lparr>sort_fields := [sortParam]\<rparr>
                                           else query)
                              in retry 5
                                   (\<lambda>(db, results).
                                       case Find_All drv collection query results db of
                                         ((e, results'), db') \<Rightarrow> (e, (db', results')))
                                   (db, None)))
                    in case getErr of
                         Some e \<Rightarrow>
                           (Inr (Some response,
                                 Some \<lparr>Code = StatusInternalServerError,
                                       Message = ''Querying items from database failed. Reason: '' @ Error e\<rparr>),
                            db',
                            lg @ [\<lparr>log_fields = [(''reason'', LString (Error e)),
                                                  (''collection'', LString collection),
                                                  (''parameters'', LParameters ps)],
                                   log_msg = ''Mongo Error: Querying items failed.''\<rparr>])
                       | None \<Rightarrow>
                           (Inr (Some (response(''results'' \<mapsto>
                                         (case results of
                                            Some rs \<Rightarrow> VSlice (map VMap rs)
                                          | None \<Rightarrow> VSlice []))),
                                 None),
                            db', lg)))))))))"

subsection \<open>Update\<close>

definition Update ::
  "'db driver \<Rightarrow> go_int \<Rightarrow> string \<Rightarrow> string \<Rightarrow> document option \<Rightarrow> 'db
    \<Rightarrow> result \<times> 'db \<times> log_entry list" where
  "Update drv now collection id' data db =
     (case data of
        None \<Rightarrow>
          ((None, Some \<lparr>Code = StatusBadRequest,
                        Message = ''Request body cannot be empty for update requests.''\<rparr>),
           db,
           [\<lparr>log_fields = [],
             log_msg = ''Mongo Error: Request body cannot be empty for update requests.''\<rparr>])
      | Some d \<Rightarrow>
          (let d = d(UpdatedAt \<mapsto> VInt32 (int32 now))
           in case FindId_One drv collection id' db of
                (Inl findErr, db1) \<Rightarrow>
                  ((None, Some \<lparr>Code = StatusNotFound, Message = ''Item not found.''\<rparr>), db1, [])
              | (Inr found, db1) \<Rightarrow>
                  (let objectToUpdate = found ++ d
                   in case UpdateId drv collection id' objectToUpdate db1 of
                        (Some updateErr, db2) \<Rightarrow>
                          ((None,
                            Some \<lparr>Code = StatusInternalServerError,
                                  Message = ''Updating '' @ apostrophe @ collection @ apostrophe
                                    @ '' with id '' @ apostrophe @ id' @ apostrophe @ '' failed.''\<rparr>),
                           db2,
                           [\<lparr>log_fields = [(''reason'', LString (Error updateErr)),
                                           (''collection'', LString collection),
                                           (''id'', LString id')],
                             log_msg = ''Mongo Error: Updating item failed.''\<rparr>])
                      | (None, db2) \<Rightarrow>
                          ((Some [UpdatedAt \<mapsto> (case d UpdatedAt of Some v \<Rightarrow> v | None \<Rightarrow> VNil)],
                            None),
                           db2, []))))"

subsection \<open>Delete\<close>

definition Delete ::
  "'db driver \<Rightarrow> string \<Rightarrow> string \<Rightarrow> 'db \<Rightarrow> result \<times> 'db \<times> log_entry list" where
  "Delete drv collection id' db =
     (case RemoveId drv collection id' db of
        (Some removeErr, db') \<Rightarrow>
          ((None,
            Some \<lparr>Code = StatusNotFound,
                  Message = ''Updating '' @ apostrophe @ collection @ apostrophe
                    @ '' with id '' @ apostrophe @ id' @ apostrophe @ '' failed.''\<rparr>),
           db',
           [\<lparr>log_fields = [(''reason'', LString (Error removeErr)),
                           (''collection'', LString collection),
                           (''id'', LString id')],
             log_msg = ''Mongo Error: Updating item failed.''\<rparr>])
      | (None, db') \<Rightarrow> ((None, None), db', []))"

text \<open>
  The second source unit of \<^verbatim>\<open>src/unnamed/part_000\<close> holds the provider without retry
  and logging; its \<^verbatim>\<open>Delete\<close> differs in the message only.
\<close>

definition Delete_unit2 ::
  "'db driver \<Rightarrow> string \<Rightarrow> string \<Rightarrow> 'db \<Rightarrow> result \<times> 'db" where
  "Delete_unit2 drv collection id' db =
     (case RemoveId drv collection id' db of
        (Some removeErr, db') \<Rightarrow>
          ((None,
            Some \<lparr>Code = StatusNotFound,
                  Message = ''Deleting item failed. Reason: '' @ Error removeErr\<rparr>),
           db')
      | (None, db') \<Rightarrow> ((None, None), db'))"

section \<open>interceptors.go\<close>

definition restrictedFields :: "string list" where
  "restrictedFields = [ID, CreatedAt, UpdatedAt]"

text \<open>
  \<^verbatim>\<open>_, containsField := req.Body[field]\<close>: reading a nil map finds no key.
\<close>

definition containsField :: "document option \<Rightarrow> string \<Rightarrow> bool" where
  "containsField body field = (case body of None \<Rightarrow> False | Some m \<Rightarrow> m field \<noteq> None)"

text \<open>
  \<^verbatim>\<open>ValidateInput\<close> reads only the request body and leaves its first three results at
  their zero values; the model gives the fourth, \<open>err\<close>. \<open>ValidateInput_range\<close> is the
  loop over the fields still to be checked.
\<close>

fun ValidateInput_range :: "string list \<Rightarrow> document option \<Rightarrow> utils_Error option" where
  "ValidateInput_range [] body = None"
| "ValidateInput_range (field # rest) body =
     (if containsField body field then
        Some \<lparr>Code = StatusBadRequest,
              Message = ''Input cannot contain '' @ apostrophe @ field @ apostrophe @ '' field.''\<rparr>
      else ValidateInput_range rest body)"

definition ValidateInput :: "document option \<Rightarrow> utils_Error option" where
  "ValidateInput body = ValidateInput_range restrictedFields body"

section \<open>Attempts of a closure\<close>

text \<open>
  \<open>after_calls function s k\<close> is the state after \<open>k\<close> consecutive calls of the closure from
  state \<open>s\<close>, and \<open>attempt function s k\<close> the result of the next call, the attempt
  numbered \<open>k + 1\<close>. A transient failure is a failure other than \<^verbatim>\<open>mgo.ErrNotFound\<close>.
\<close>

definition after_calls :: "('s \<Rightarrow> go_error option \<times> 's) \<Rightarrow> 's \<Rightarrow> nat \<Rightarrow> 's" where
  "after_calls function s k = ((\<lambda>t. snd (function t)) ^^ k) s"

definition attempt :: "('s \<Rightarrow> go_error option \<times> 's) \<Rightarrow> 's \<Rightarrow> nat \<Rightarrow> go_error option" where
  "attempt function s k = fst (function (after_calls function s k))"

definition transient :: "go_error option \<Rightarrow> bool" where
  "transient r = (case r of None \<Rightarrow> False | Some e \<Rightarrow> e \<noteq> ErrNotFound)"


section \<open>Example inputs\<close>

text \<open>
  A closure that counts its calls and answers from a script: call number \<open>n + 1\<close> gives
  the \<open>n\<close>-th entry, and calls beyond the script succeed.
\<close>

definition scripted :: "go_error option list \<Rightarrow> nat \<Rightarrow> go_error option \<times> nat" where
  "scripted rs n = (if n < length rs then rs ! n else None, Suc n)"

text \<open>
  Two drivers. \<open>unreachable_driver\<close> has no state and fails every operation with a
  transient error. \<open>memory_driver\<close> keeps the documents of one collection by their id.
\<close>

definition unreachable_driver :: "unit driver" where
  "unreachable_driver =
     \<lparr>Insert = (\<lambda>c d db. (Some (DriverError ''EOF''), db)),
      FindId_One = (\<lambda>c i db. (Inl (DriverError ''EOF''), db)),
      Pipe_All = (\<lambda>c p rs db. ((Some (DriverError ''EOF''), rs), db)),
      Find_All = (\<lambda>c q rs db. ((Some (DriverError ''EOF''), rs), db)),
      UpdateId = (\<lambda>c i d db. (Some (DriverError ''EOF''), db)),
      RemoveId = (\<lambda>c i db. (Some (DriverError ''EOF''), db))\<rparr>"

definition memory_driver :: "(string \<Rightarrow> document option) driver" where
  "memory_driver =
     \<lparr>Insert = (\<lambda>c d db.
         case d ID of
           Some (VString i) \<Rightarrow>
             if db i = None then (None, db(i \<mapsto> d)) else (Some (DriverError ''duplicate key''), db)
         | _ \<Rightarrow> (Some (DriverError ''unsupported id''), db)),
      FindId_One = (\<lambda>c i db. case db i of None \<Rightarrow> (Inl ErrNotFound, db) | Some d \<Rightarrow> (Inr d, db)),
      Pipe_All = (\<lambda>c p rs db. ((Some (DriverError ''unsupported''), rs), db)),
      Find_All = (\<lambda>c q rs db. ((None, Some []), db)),
      UpdateId = (\<lambda>c i d db. if db i = None then (Some ErrNotFound, db) else (None, db(i \<mapsto> d))),
      RemoveId = (\<lambda>c i db. if db i = None then (Some ErrNotFound, db) else (None, db(i := None)))\<rparr>"

text \<open>A stored document as \<^verbatim>\<open>Create\<close> writes it at Unix time 1000, and its collection.\<close>

definition stored_thing :: document where
  "stored_thing =
     [ID \<mapsto> VString ''42'', ''name'' \<mapsto> VString ''old'', ''size'' \<mapsto> VFloat64 3,
      CreatedAt \<mapsto> VFloat64 1000, UpdatedAt \<mapsto> VFloat64 1000]"

definition stored_things :: "string \<Rightarrow> document option" where
  "stored_things = [''42'' \<mapsto> stored_thing]"

text \<open>
  A decoder that knows a few JSON texts and rejects every other one, on a platform where
  the conversion of an unrepresentable \<^verbatim>\<open>float64\<close> to \<^verbatim>\<open>int\<close> gives the least integer
  (as amd64 does).
\<close>

definition quoted :: "string \<Rightarrow> string" where
  "quoted s = [CHR 0x22] @ s @ [CHR 0x22]"

definition example_runtime :: go_runtime where
  "example_runtime =
     \<lparr>json_Unmarshal = (\<lambda>s.
         case map_of
           [(''5'', VFloat64 5),
            (''true'', VBool True),
            (''null'', VNil),
            (''1.9'', VFloat64 (4278419646001971 / 2251799813685248)),
            (''-1.9'', VFloat64 (- (4278419646001971 / 2251799813685248))),
            (''9223372036854775808'', VFloat64 9223372036854775808),
            (''{}'', VMap Map.empty),
            (''[]'', VSlice []),
            (quoted ''name'', VString ''name'')] s of
           Some v \<Rightarrow> (v, None)
         | None \<Rightarrow> (VNil, Some ''invalid character'')),
      int_of_unrepresentable = (\<lambda>x. - 9223372036854775808)\<rparr>"

text \<open>
  Query parameters: \<^verbatim>\<open>where\<close> bound to the nil slice beside an \<^verbatim>\<open>aggregate\<close>; both keys
  bound to slices; undecodable \<^verbatim>\<open>sort\<close> and \<^verbatim>\<open>limit\<close>; an undecodable \<^verbatim>\<open>where\<close> and a
  \<^verbatim>\<open>skip\<close> of the wrong type; a \<^verbatim>\<open>limit\<close> of \<open>2 ^ 63\<close>; fractional \<^verbatim>\<open>limit\<close> and
  \<^verbatim>\<open>skip\<close>.
\<close>

definition nil_where :: parameters where
  "nil_where = [''where'' \<mapsto> None, ''aggregate'' \<mapsto> Some [''[]'']]"

definition where_and_aggregate :: parameters where
  "where_and_aggregate = [''where'' \<mapsto> Some [''nonsense''], ''aggregate'' \<mapsto> Some []]"



definition huge_limit :: parameters where
  "huge_limit = [''limit'' \<mapsto> Some [''9223372036854775808'']]"

definition fractional_limits :: parameters where
  "fractional_limits = [''limit'' \<mapsto> Some [''1.9''], ''skip'' \<mapsto> Some [''-1.9'']]"

text \<open>A request body that is an empty JSON object: a map with no field.\<close>

definition empty_object :: document where
  "empty_object = Map.empty"

text \<open>An update body that renames the document and carries a time stamp of its own.\<close>

definition rename_body :: document where
  "rename_body = [''name'' \<mapsto> VString ''new'', UpdatedAt \<mapsto> VFloat64 5]"

text \<open>
  The value of an \<^verbatim>\<open>updatedAt\<close> field as a number, to compare time stamps of either
  numeric type.
\<close>

fun numeric :: "go_value \<Rightarrow> real option" where
  "numeric (VInt32 n) = Some (of_int (sint n))"
| "numeric (VFloat64 x) = Some x"
| "numeric v = None"

section \<open>The retry loop\<close>

lemma retry_loop_success:
  "fst (function s) = None \<Longrightarrow> retry_loop attempts function i s lg = (None, snd (function s), lg)"
  by (cases "function s") (subst retry_loop.simps, simp)

lemma retry_loop_not_found:
  "fst (function s) = Some ErrNotFound \<Longrightarrow>
     retry_loop attempts function i s lg = (Some ErrNotFound, snd (function s), lg)"
  by (cases "function s") (subst retry_loop.simps, simp)

lemma retry_loop_last:
  "fst (function s) = Some e \<Longrightarrow> e \<noteq> ErrNotFound \<Longrightarrow> attempts - 1 \<le>s i \<Longrightarrow>
     \<exists>lg'. retry_loop attempts function i s lg = (Some e, snd (function s), lg')"
  by (cases "function s") (subst retry_loop.simps, simp)

lemma retry_loop_again:
  "transient (fst (function s)) \<Longrightarrow> \<not> attempts - 1 \<le>s i \<Longrightarrow>
     \<exists>lg'. retry_loop attempts function i s lg =
            retry_loop attempts function (i + 1) (snd (function s)) lg'"
  by (cases "function s") (subst retry_loop.simps, auto simp: transient_def split: option.splits)

lemma not_transient_cases: "\<not> transient r \<Longrightarrow> r = None \<or> r = Some ErrNotFound"
  by (auto simp: transient_def split: option.splits)

lemma after_calls_step:
  "after_calls function s (Suc k) = snd (function (after_calls function s k))"
  by (simp add: after_calls_def)

lemma after_calls_Suc:
  "after_calls function s (Suc k) = after_calls function (snd (function s)) k"
  using funpow_swap1 [of "\<lambda>t. snd (function t)" k s] by (simp add: after_calls_def)

lemma attempt_Suc: "attempt function s (Suc k) = attempt function (snd (function s)) k"
  by (simp add: attempt_def after_calls_Suc)

lemma sint_succ_below:
  fixes i a :: go_int
  assumes "sint i < sint a"
  shows "sint (i + 1) = sint i + 1"
proof -
  have "sint a < 2 ^ (LENGTH(64) - 1)" by (rule sint_lt)
  moreover have "- (2 ^ (LENGTH(64) - 1)) \<le> sint i" by (rule sint_ge)
  ultimately have "- (2 ^ 63) \<le> sint i + 1" and "sint i + 1 < 2 ^ 63"
    using assms by simp_all
  then have "signed_take_bit 63 (sint i + 1) = sint i + 1"
    by (simp add: signed_take_bit_int_eq_self)
  then show ?thesis
    by (simp add: sint_word_ariths)
qed

text \<open>
  While the attempts are transient failures and the counter stays below \<open>attempts - 1\<close>,
  the loop goes on: after \<open>k\<close> such attempts it stands at counter \<open>i + k\<close> in the state
  that \<open>k\<close> calls leave.
\<close>

lemma retry_loop_run_Suc:
  "(\<forall>j<k. transient (attempt function s j)) \<Longrightarrow> sint i + int k \<le> sint (attempts - 1) \<Longrightarrow>
     \<exists>lg'. retry_loop attempts function i s lg =
            retry_loop attempts function (i + of_nat k) (after_calls function s k) lg'"
proof (induction k arbitrary: i s lg)
  case 0
  show ?case by (simp add: after_calls_def) blast
next
  case (Suc k)
  from Suc.prems(1) have first: "transient (fst (function s))"
    by (auto simp: attempt_def after_calls_def dest: spec [of _ 0])
  from Suc.prems(2) have lt: "sint i < sint (attempts - 1)" by simp
  then have more: "\<not> attempts - 1 \<le>s i" by (simp add: word_sle_eq)
  from retry_loop_again [of "function" s attempts i lg, OF first more] obtain lg1 where
    step: "retry_loop attempts function i s lg =
             retry_loop attempts function (i + 1) (snd (function s)) lg1"
    by blast
  have rest: "\<forall>j<k. transient (attempt function (snd (function s)) j)"
    using Suc.prems(1) by (auto simp: attempt_Suc [symmetric])
  have bound: "sint (i + 1) + int k \<le> sint (attempts - 1)"
    using Suc.prems(2) sint_succ_below [OF lt] by simp
  from Suc.IH [of "snd (function s)" "i + 1" lg1, OF rest bound] obtain lg2 where
    run: "retry_loop attempts function (i + 1) (snd (function s)) lg1 =
            retry_loop attempts function (i + 1 + of_nat k)
              (after_calls function (snd (function s)) k) lg2"
    by blast
  have idx: "i + 1 + of_nat k = i + of_nat (Suc k)"
    by simp
  have "retry_loop attempts function i s lg =
      retry_loop attempts function (i + of_nat (Suc k)) (after_calls function s (Suc k)) lg2"
    unfolding step run idx after_calls_Suc ..
  then show ?case ..
qed

lemma retry_loop_run:
  assumes "\<forall>j<k. transient (attempt function s j)"
      and "k = 0 \<or> sint i + int k \<le> sint (attempts - 1)"
  shows "\<exists>lg'. retry_loop attempts function i s lg =
            retry_loop attempts function (i + of_nat k) (after_calls function s k) lg'"
proof (cases k)
  case 0
  show ?thesis unfolding 0 by (simp add: after_calls_def) blast
next
  case (Suc n)
  with assms show ?thesis by (intro retry_loop_run_Suc) auto
qed

lemma first_stop:
  assumes "\<not> (\<forall>k<n. transient (attempt function s k))"
  obtains k where "k < n" and "\<forall>j<k. transient (attempt function s j)"
    and "\<not> transient (attempt function s k)"
proof -
  let ?P = "\<lambda>k. k < n \<and> \<not> transient (attempt function s k)"
  from assms have ex: "\<exists>k. ?P k" by blast
  define k where "k = (LEAST k. ?P k)"
  from ex have Pk: "?P k" unfolding k_def by (rule LeastI_ex)
  have "\<forall>j<k. transient (attempt function s j)"
  proof (intro allI impI)
    fix j assume "j < k"
    then have "\<not> ?P j" unfolding k_def by (rule not_less_Least)
    with \<open>j < k\<close> Pk show "transient (attempt function s j)" by simp
  qed
  with Pk that show thesis by blast
qed

lemma retry_five_success:
  assumes k: "k < 5"
      and pre: "\<forall>j<k. transient (attempt function s j)"
      and ok: "attempt function s k = None"
  shows "fst (retry 5 function s) = None \<and>
         fst (snd (retry 5 function s)) = after_calls function s (Suc k)"
proof -
  from k have "k = 0 \<or> sint (0 :: go_int) + int k \<le> sint (5 - 1 :: go_int)" by simp
  from retry_loop_run [OF pre this, of "[]"] obtain lg' where
    run: "retry 5 function s = retry_loop 5 function (of_nat k) (after_calls function s k) lg'"
    by (auto simp: retry_def)
  from ok have "fst (function (after_calls function s k)) = None"
    by (simp add: attempt_def)
  from retry_loop_success [of "function" "after_calls function s k", OF this]
  have "retry 5 function s = (None, snd (function (after_calls function s k)), lg')"
    by (simp add: run)
  then show ?thesis
    by (simp add: after_calls_step)
qed

lemma retry_five_failure:
  assumes res: "fst (retry 5 function s) = Some e"
      and e: "e \<noteq> ErrNotFound"
  shows "(\<forall>k<5. attempt function s k \<noteq> None) \<and> attempt function s 4 = Some e \<and>
         fst (snd (retry 5 function s)) = after_calls function s 5"
proof -
  have all: "\<forall>k<5. transient (attempt function s k)"
  proof (rule ccontr)
    assume "\<not> (\<forall>k<5. transient (attempt function s k))"
    then obtain k where k: "k < 5" and pre: "\<forall>j<k. transient (attempt function s j)"
      and stop: "\<not> transient (attempt function s k)"
      by (rule first_stop)
    from k have "k = 0 \<or> sint (0 :: go_int) + int k \<le> sint (5 - 1 :: go_int)" by simp
    from retry_loop_run [OF pre this, of "[]"] obtain lg' where
      run: "retry 5 function s = retry_loop 5 function (of_nat k) (after_calls function s k) lg'"
      by (auto simp: retry_def)
    from not_transient_cases [OF stop]
    have "fst (function (after_calls function s k)) = None \<or>
          fst (function (after_calls function s k)) = Some ErrNotFound"
      by (simp add: attempt_def)
    then have "fst (retry 5 function s) = None \<or> fst (retry 5 function s) = Some ErrNotFound"
      by (auto simp: run retry_loop_success retry_loop_not_found)
    with res e show False by auto
  qed
  then have none: "\<forall>k<5. attempt function s k \<noteq> None"
    by (auto simp: transient_def split: option.splits)
  from all have pre: "\<forall>j<4. transient (attempt function s j)" by simp
  have "(4 :: nat) = 0 \<or> sint (0 :: go_int) + int 4 \<le> sint (5 - 1 :: go_int)" by simp
  from retry_loop_run [OF pre this, of "[]"] obtain lg' where
    run: "retry 5 function s = retry_loop 5 function 4 (after_calls function s 4) lg'"
    by (auto simp: retry_def)
  from all have "transient (attempt function s 4)" by simp
  then obtain e' where e': "fst (function (after_calls function s 4)) = Some e'" "e' \<noteq> ErrNotFound"
    by (auto simp: transient_def attempt_def split: option.splits)
  have "(5 :: go_int) - 1 \<le>s 4" by (simp add: word_sle_eq)
  from retry_loop_last [of "function" "after_calls function s 4", OF e' this] obtain lg'' where
    fin: "retry 5 function s = (Some e', snd (function (after_calls function s 4)), lg'')"
    unfolding run by blast
  with res have "e' = e" by simp
  with e' have fifth: "attempt function s 4 = Some e"
    by (simp add: attempt_def)
  have "Suc 4 = 5" by simp
  with after_calls_step [of "function" s 4]
  have "after_calls function s 5 = snd (function (after_calls function s 4))"
    by simp
  then have "fst (snd (retry 5 function s)) = after_calls function s 5"
    by (simp add: fin)
  with none fifth show ?thesis by simp
qed

lemma retry_five_exhausted:
  assumes all: "\<forall>k<5. attempt function s k \<noteq> None"
      and nf: "\<forall>k<4. attempt function s k \<noteq> Some ErrNotFound"
  shows "fst (retry 5 function s) = attempt function s 4 \<and>
         fst (snd (retry 5 function s)) = after_calls function s 5"
proof -
  have pre: "\<forall>j<4. transient (attempt function s j)"
  proof (intro allI impI)
    fix j :: nat
    assume j: "j < 4"
    then have "j < 5" by simp
    with all have "attempt function s j \<noteq> None" by blast
    moreover from nf j have "attempt function s j \<noteq> Some ErrNotFound" by blast
    ultimately show "transient (attempt function s j)"
      by (cases "attempt function s j") (simp_all add: transient_def)
  qed
  have "(4 :: nat) = 0 \<or> sint (0 :: go_int) + int 4 \<le> sint (5 - 1 :: go_int)" by simp
  from retry_loop_run [OF pre this, of "[]"] obtain lg' where
    run: "retry 5 function s = retry_loop 5 function 4 (after_calls function s 4) lg'"
    by (auto simp: retry_def)
  from all have "attempt function s 4 \<noteq> None" by simp
  then obtain e where e: "fst (function (after_calls function s 4)) = Some e"
    by (auto simp: attempt_def)
  have "Suc 4 = 5" by simp
  with after_calls_step [of "function" s 4]
  have five: "after_calls function s 5 = snd (function (after_calls function s 4))"
    by simp
  have "\<exists>lg''. retry 5 function s = (Some e, snd (function (after_calls function s 4)), lg'')"
  proof (cases "e = ErrNotFound")
    case True
    with e have "fst (function (after_calls function s 4)) = Some ErrNotFound" by simp
    from retry_loop_not_found [of "function" "after_calls function s 4", OF this] True
    show ?thesis unfolding run by simp
  next
    case False
    have "(5 :: go_int) - 1 \<le>s 4" by (simp add: word_sle_eq)
    from retry_loop_last [of "function" "after_calls function s 4", OF e False this]
    show ?thesis unfolding run by blast
  qed
  then obtain lg'' where
    "retry 5 function s = (Some e, snd (function (after_calls function s 4)), lg'')" ..
  with e five show ?thesis
    by (simp add: attempt_def)
qed

text \<open>
  C1, as stated, fails: a closure whose first call fails with \<^verbatim>\<open>mgo.ErrNotFound\<close> and
  whose second call would succeed makes \<^verbatim>\<open>retry(5, f)\<close> return that error after a single
  call, although not all five attempts fail.
\<close>

theorem retry_stops_at_not_found_counterexample:
  "fst (retry 5 (scripted [Some ErrNotFound]) 0) = Some ErrNotFound \<and>
   fst (snd (retry 5 (scripted [Some ErrNotFound]) 0)) = 1 \<and>
   attempt (scripted [Some ErrNotFound]) 0 1 = None"
  by (simp add: retry_def retry_loop.simps scripted_def attempt_def after_calls_def)

text \<open>
  C1, amended: \<^verbatim>\<open>retry(5, f)\<close> returns nil as soon as an attempt succeeds, provided no
  earlier attempt failed with \<^verbatim>\<open>mgo.ErrNotFound\<close>, and then no further attempt is made;
  it returns an error other than \<^verbatim>\<open>mgo.ErrNotFound\<close> only when all 5 attempts fail, and
  that error is the one of the 5th attempt; and when all 5 attempts fail, none of the
  first four with \<^verbatim>\<open>mgo.ErrNotFound\<close>, it makes exactly 5 attempts and returns the error
  of the 5th.
\<close>

theorem retry_five_attempts:
  "(\<forall>k<5. (\<forall>j<k. transient (attempt function s j)) \<and> attempt function s k = None \<longrightarrow>
       fst (retry 5 function s) = None \<and>
       fst (snd (retry 5 function s)) = after_calls function s (Suc k)) \<and>
   (\<forall>e. fst (retry 5 function s) = Some e \<and> e \<noteq> ErrNotFound \<longrightarrow>
       (\<forall>k<5. attempt function s k \<noteq> None) \<and> attempt function s 4 = Some e \<and>
       fst (snd (retry 5 function s)) = after_calls function s 5) \<and>
   ((\<forall>k<5. attempt function s k \<noteq> None) \<and>
    (\<forall>k<4. attempt function s k \<noteq> Some ErrNotFound) \<longrightarrow>
       fst (retry 5 function s) = attempt function s 4 \<and>
       fst (retry 5 function s) \<noteq> None \<and>
       fst (snd (retry 5 function s)) = after_calls function s 5)"
proof (intro conjI)
  show "\<forall>k<5. (\<forall>j<k. transient (attempt function s j)) \<and> attempt function s k = None \<longrightarrow>
       fst (retry 5 function s) = None \<and>
       fst (snd (retry 5 function s)) = after_calls function s (Suc k)"
    using retry_five_success [of _ "function" s] by blast
  show "\<forall>e. fst (retry 5 function s) = Some e \<and> e \<noteq> ErrNotFound \<longrightarrow>
       (\<forall>k<5. attempt function s k \<noteq> None) \<and> attempt function s 4 = Some e \<and>
       fst (snd (retry 5 function s)) = after_calls function s 5"
    using retry_five_failure [of "function" s] by blast
  show "(\<forall>k<5. attempt function s k \<noteq> None) \<and>
    (\<forall>k<4. attempt function s k \<noteq> Some ErrNotFound) \<longrightarrow>
       fst (retry 5 function s) = attempt function s 4 \<and>
       fst (retry 5 function s) \<noteq> None \<and>
       fst (snd (retry 5 function s)) = after_calls function s 5"
  proof
    assume h: "(\<forall>k<5. attempt function s k \<noteq> None) \<and>
      (\<forall>k<4. attempt function s k \<noteq> Some ErrNotFound)"
    then have all: "\<forall>k<5. attempt function s k \<noteq> None"
      and nf: "\<forall>k<4. attempt function s k \<noteq> Some ErrNotFound"
      by blast+
    from all have "attempt function s 4 \<noteq> None" by simp
    with retry_five_exhausted [OF all nf]
    show "fst (retry 5 function s) = attempt function s 4 \<and>
       fst (retry 5 function s) \<noteq> None \<and>
       fst (snd (retry 5 function s)) = after_calls function s 5"
      by simp
  qed
qed

theorem retry_five_attempts_witness:
  "fst (retry 5 (scripted [Some (DriverError ''EOF''), Some (DriverError ''EOF'')]) 0) = None \<and>
   fst (snd (retry 5 (scripted [Some (DriverError ''EOF''), Some (DriverError ''EOF'')]) 0)) = 3 \<and>
   fst (retry 5 (scripted (replicate 6 (Some (DriverError ''EOF'')))) 0) = Some (DriverError ''EOF'') \<and>
   attempt (scripted (replicate 6 (Some (DriverError ''EOF'')))) 0 4 = Some (DriverError ''EOF'') \<and>
   fst (snd (retry 5 (scripted (replicate 6 (Some (DriverError ''EOF'')))) 0)) = 5"
proof -
  let ?f = "scripted [Some (DriverError ''EOF''), Some (DriverError ''EOF'')]"
  let ?g = "scripted (replicate 6 (Some (DriverError ''EOF'')))"
  have a: "(\<forall>j<2. transient (attempt ?f 0 j)) \<and> attempt ?f 0 2 = None"
    by (simp add: transient_def attempt_def after_calls_def scripted_def eval_nat_numeral
        All_less_Suc)
  have b: "(\<forall>k<5. attempt ?g 0 k \<noteq> None) \<and> (\<forall>k<4. attempt ?g 0 k \<noteq> Some ErrNotFound)"
    by (simp add: attempt_def after_calls_def scripted_def eval_nat_numeral All_less_Suc)
  have c: "after_calls ?f 0 (Suc 2) = 3" "after_calls ?g 0 5 = 5"
    "attempt ?g 0 4 = Some (DriverError ''EOF'')"
    by (simp_all add: attempt_def after_calls_def scripted_def eval_nat_numeral)
  from retry_five_attempts [of ?f 0, THEN conjunct1, THEN spec, of 2] a c(1)
  have "fst (retry 5 ?f 0) = None \<and> fst (snd (retry 5 ?f 0)) = 3"
    by simp
  moreover
  from retry_five_attempts [of ?g 0, THEN conjunct2, THEN conjunct2, THEN mp, OF b] c(2,3)
  have "fst (retry 5 ?g 0) = Some (DriverError ''EOF'') \<and> fst (snd (retry 5 ?g 0)) = 5"
    by simp
  ultimately show ?thesis using c(3) by simp
qed

text \<open>
  C5: in every execution of \<^verbatim>\<open>retry\<close>, whatever the bound \<open>attempts\<close>, an attempt that is
  made (the first one, or one within the bound after transient failures only) and fails
  with \<^verbatim>\<open>mgo.ErrNotFound\<close> is the last call of the closure: \<^verbatim>\<open>retry\<close> returns that
  error in the state this call leaves.
\<close>

theorem retry_not_found_stops:
  assumes "\<forall>j<k. transient (attempt function s j)"
      and "attempt function s k = Some ErrNotFound"
      and "k = 0 \<or> int k \<le> sint (attempts - 1)"
  shows "fst (retry attempts function s) = Some ErrNotFound \<and>
         fst (snd (retry attempts function s)) = after_calls function s (Suc k)"
proof -
  from assms(3) have "k = 0 \<or> sint (0 :: go_int) + int k \<le> sint (attempts - 1)" by simp
  from retry_loop_run [OF assms(1) this, of "[]"] obtain lg' where
    run: "retry attempts function s =
            retry_loop attempts function (of_nat k) (after_calls function s k) lg'"
    by (auto simp: retry_def)
  from assms(2) have "fst (function (after_calls function s k)) = Some ErrNotFound"
    by (simp add: attempt_def)
  from retry_loop_not_found [of "function" "after_calls function s k", OF this]
  have "retry attempts function s =
          (Some ErrNotFound, snd (function (after_calls function s k)), lg')"
    by (simp add: run)
  then show ?thesis
    by (simp add: after_calls_step)
qed

theorem retry_not_found_stops_witness:
  "fst (retry 5 (scripted [Some (DriverError ''EOF''), Some ErrNotFound]) 0) = Some ErrNotFound \<and>
   fst (snd (retry 5 (scripted [Some (DriverError ''EOF''), Some ErrNotFound]) 0)) = 2"
proof -
  let ?f = "scripted [Some (DriverError ''EOF''), Some ErrNotFound]"
  have pre: "\<forall>j<1. transient (attempt ?f 0 j)"
    by (simp add: transient_def attempt_def after_calls_def scripted_def)
  have nf: "attempt ?f 0 1 = Some ErrNotFound"
    by (simp add: attempt_def after_calls_def scripted_def)
  have bound: "(1 :: nat) = 0 \<or> int 1 \<le> sint (5 - 1 :: go_int)"
    by simp
  have "after_calls ?f 0 (Suc 1) = 2"
    by (simp add: after_calls_def scripted_def eval_nat_numeral)
  with retry_not_found_stops [of 1 ?f 0 5, OF pre nf bound] show ?thesis
    by simp
qed

section \<open>Update with an empty body\<close>

text \<open>
  C7, as stated, fails: a request body that is an empty map, not nil, passes the test
  \<^verbatim>\<open>data == nil\<close>; \<^verbatim>\<open>Update\<close> then returns no error and writes the record back with a
  new \<^verbatim>\<open>updatedAt\<close>.
\<close>

theorem Update_empty_object_counterexample:
  "dom empty_object = {} \<and>
   snd (fst (Update memory_driver 2000 ''things'' ''42'' (Some empty_object) stored_things)) = None \<and>
   the (fst (snd (Update memory_driver 2000 ''things'' ''42'' (Some empty_object) stored_things))
        ''42'') UpdatedAt = Some (VInt32 2000) \<and>
   the (stored_things ''42'') UpdatedAt = Some (VFloat64 1000)"
  by (simp add: empty_object_def Update_def memory_driver_def stored_things_def stored_thing_def
      int32_def map_add_def ID_def CreatedAt_def UpdatedAt_def)

text \<open>
  C7, amended: for every collection and id, \<^verbatim>\<open>Update\<close> called with a nil request body
  returns a bad-request error with status 400; the driver is not called and the database
  is left as it was. A body that is not nil, even one with no field, never gets an error
  with status 400.
\<close>

theorem Update_empty_body:
  "Update drv now collection id' None db =
     ((None, Some \<lparr>Code = StatusBadRequest,
                   Message = ''Request body cannot be empty for update requests.''\<rparr>),
      db,
      [\<lparr>log_fields = [],
        log_msg = ''Mongo Error: Request body cannot be empty for update requests.''\<rparr>]) \<and>
   StatusBadRequest = 400 \<and>
   (\<forall>d. map_option Code (snd (fst (Update drv now collection id' (Some d) db))) \<noteq> Some 400)"
proof (intro conjI allI)
  show "Update drv now collection id' None db =
     ((None, Some \<lparr>Code = StatusBadRequest,
                   Message = ''Request body cannot be empty for update requests.''\<rparr>),
      db,
      [\<lparr>log_fields = [],
        log_msg = ''Mongo Error: Request body cannot be empty for update requests.''\<rparr>])"
    by (simp add: Update_def)
  show "StatusBadRequest = 400"
    by (simp add: StatusBadRequest_def)
  fix d
  let ?d = "d(UpdatedAt \<mapsto> VInt32 (int32 now))"
  obtain f db1 where f: "FindId_One drv collection id' db = (f, db1)"
    by (cases "FindId_One drv collection id' db")
  show "map_option Code (snd (fst (Update drv now collection id' (Some d) db))) \<noteq> Some 400"
  proof (cases f)
    case (Inl e)
    with f show ?thesis
      by (simp add: Update_def StatusNotFound_def)
  next
    case (Inr found)
    obtain u db2 where u: "UpdateId drv collection id' (found ++ ?d) db1 = (u, db2)"
      by (cases "UpdateId drv collection id' (found ++ ?d) db1")
    with f Inr show ?thesis
      by (cases u) (simp_all add: Update_def StatusInternalServerError_def)
  qed
qed

theorem Update_empty_body_witness:
  "fst (Update memory_driver 1000 ''things'' ''42'' None stored_things) =
     (None, Some \<lparr>Code = 400, Message = ''Request body cannot be empty for update requests.''\<rparr>) \<and>
   fst (snd (Update memory_driver 1000 ''things'' ''42'' None stored_things)) = stored_things"
  using Update_empty_body [of memory_driver 1000 "''things''" "''42''" stored_things]
  by (simp add: StatusBadRequest_def)

section \<open>The ValidateInput interceptor\<close>

lemma ValidateInput_range_None:
  "ValidateInput_range fs body = None \<longleftrightarrow> (\<forall>field \<in> set fs. \<not> containsField body field)"
  by (induction fs) auto

lemma ValidateInput_range_Some:
  "ValidateInput_range fs body = Some e \<Longrightarrow>
     Code e = StatusBadRequest \<and>
     (\<exists>field \<in> set fs. containsField body field \<and>
        Message e = ''Input cannot contain '' @ apostrophe @ field @ apostrophe @ '' field.'')"
  by (induction fs) (auto split: if_splits)

text \<open>
  C8: for every request body, \<^verbatim>\<open>ValidateInput\<close> returns an error if and only if the body
  contains one of the reserved fields \<^verbatim>\<open>_id\<close>, \<^verbatim>\<open>createdAt\<close>, \<^verbatim>\<open>updatedAt\<close>; the
  error has status 400 and its message names a reserved field of the body.
\<close>

theorem ValidateInput_reserved:
  "(ValidateInput body \<noteq> None \<longleftrightarrow>
      containsField body ID \<or> containsField body CreatedAt \<or> containsField body UpdatedAt) \<and>
   (\<forall>e. ValidateInput body = Some e \<longrightarrow>
      Code e = 400 \<and>
      (\<exists>field \<in> {ID, CreatedAt, UpdatedAt}. containsField body field \<and>
         Message e = ''Input cannot contain '' @ apostrophe @ field @ apostrophe @ '' field.''))"
proof -
  have "ValidateInput body \<noteq> None \<longleftrightarrow>
      containsField body ID \<or> containsField body CreatedAt \<or> containsField body UpdatedAt"
    by (simp add: ValidateInput_def restrictedFields_def ValidateInput_range_None)
  moreover have "Code e = 400 \<and>
      (\<exists>field \<in> {ID, CreatedAt, UpdatedAt}. containsField body field \<and>
         Message e = ''Input cannot contain '' @ apostrophe @ field @ apostrophe @ '' field.'')"
    if "ValidateInput body = Some e" for e
    using ValidateInput_range_Some [OF that [unfolded ValidateInput_def]]
    by (simp add: restrictedFields_def StatusBadRequest_def)
  ultimately show ?thesis by blast
qed

theorem ValidateInput_reserved_witness:
  "ValidateInput (Some [''name'' \<mapsto> VString ''x'', CreatedAt \<mapsto> VFloat64 7]) =
     Some \<lparr>Code = 400, Message = ''Input cannot contain 'createdAt' field.''\<rparr> \<and>
   ValidateInput (Some [''name'' \<mapsto> VString ''x'']) = None"
proof -
  let ?b = "Some [''name'' \<mapsto> VString ''x'', CreatedAt \<mapsto> VFloat64 7]"
  let ?c = "Some [''name'' \<mapsto> VString ''x'']"
  have "containsField ?b CreatedAt"
    by (simp add: containsField_def)
  with ValidateInput_reserved [of ?b] have "ValidateInput ?b \<noteq> None"
    by simp
  moreover have "\<not> (containsField ?c ID \<or> containsField ?c CreatedAt \<or> containsField ?c UpdatedAt)"
    by (simp add: containsField_def ID_def CreatedAt_def UpdatedAt_def)
  with ValidateInput_reserved [of ?c] have "ValidateInput ?c = None"
    by simp
  ultimately show ?thesis
    by (simp add: ValidateInput_def restrictedFields_def containsField_def ID_def CreatedAt_def
        UpdatedAt_def StatusBadRequest_def apostrophe_def)
qed

section \<open>Delete\<close>

text \<open>
  C9: in both source units, whenever the driver's remove operation fails, whatever the
  error, \<^verbatim>\<open>Delete\<close> returns an error with status 404; \<^verbatim>\<open>Delete\<close> never returns an error
  with status 500.
\<close>

theorem Delete_failure_is_not_found:
  "(fst (RemoveId drv collection id' db) \<noteq> None \<longrightarrow>
      map_option Code (snd (fst (Delete drv collection id' db))) = Some 404 \<and>
      map_option Code (snd (fst (Delete_unit2 drv collection id' db))) = Some 404) \<and>
   map_option Code (snd (fst (Delete drv collection id' db))) \<noteq> Some 500 \<and>
   map_option Code (snd (fst (Delete_unit2 drv collection id' db))) \<noteq> Some 500"
  by (cases "RemoveId drv collection id' db")
     (auto simp: Delete_def Delete_unit2_def StatusNotFound_def split: option.splits)

theorem Delete_failure_is_not_found_witness:
  "fst (RemoveId unreachable_driver ''things'' ''42'' ()) = Some (DriverError ''EOF'') \<and>
   map_option Code (snd (fst (Delete unreachable_driver ''things'' ''42'' ()))) = Some 404 \<and>
   map_option Code (snd (fst (Delete_unit2 unreachable_driver ''things'' ''42'' ()))) = Some 404"
proof -
  have "fst (RemoveId unreachable_driver ''things'' ''42'' ()) = Some (DriverError ''EOF'')"
    by (simp add: unreachable_driver_def)
  with Delete_failure_is_not_found [of unreachable_driver "''things''" "''42''" "()"]
  show ?thesis by simp
qed

section \<open>Create\<close>

text \<open>Integers below \<open>2 ^ 53\<close> in magnitude convert to \<^verbatim>\<open>float64\<close> exactly.\<close>

lemma float64_of_int64_exact:
  assumes "\<bar>sint x\<bar> < 2 ^ 53"
  shows "float64_of_int64 x = of_int (sint x)"
proof -
  have "[0..<12] = 0 # [1..<12]"
    by (simp add: upt_conv_Cons)
  with assms have "find (\<lambda>e. \<bar>sint x\<bar> < 2 ^ (53 + e)) [0..<12] = Some 0"
    by simp
  then show ?thesis
    by (simp add: float64_of_int64_def Let_def sgn_if abs_if del: of_int_sint)
qed

lemma ID_neq: "ID \<noteq> CreatedAt" "ID \<noteq> UpdatedAt" "CreatedAt \<noteq> UpdatedAt"
  by (simp_all add: ID_def CreatedAt_def UpdatedAt_def)

text \<open>
  C6: for every input record, a \<^verbatim>\<open>Create\<close> that returns without error gives a response
  whose \<^verbatim>\<open>_id\<close> is the input's \<^verbatim>\<open>_id\<close> when the input has one and the identifier
  generated in this call otherwise, and whose \<^verbatim>\<open>createdAt\<close> and \<^verbatim>\<open>updatedAt\<close> are equal
  (both the time of the call).
\<close>

theorem Create_response:
  assumes "fst (Create drv now objectId collection data db) = Inr (response, None)"
  shows "\<exists>d r. data = Some d \<and> response = Some r \<and>
           r ID = Some (case d ID of Some v \<Rightarrow> v | None \<Rightarrow> VString objectId) \<and>
           r CreatedAt = r UpdatedAt \<and>
           r CreatedAt = Some (VFloat64 (float64_of_int64 now))"
proof (cases data)
  case None
  with assms show ?thesis by (simp add: Create_def)
next
  case (Some d)
  let ?d = "(if d ID = None then d(ID \<mapsto> VString objectId) else d)
              (CreatedAt \<mapsto> VFloat64 (float64_of_int64 now),
               UpdatedAt \<mapsto> VFloat64 (float64_of_int64 now))"
  obtain insertError db' lg where r: "retry 5 (Insert drv collection ?d) db = (insertError, db', lg)"
    by (cases "retry 5 (Insert drv collection ?d) db")
  from assms Some r have ok: "insertError = None"
    by (cases insertError) (simp_all add: Create_def Let_def)
  with assms Some r have "response =
      Some [ID \<mapsto> (case ?d ID of Some v \<Rightarrow> v | None \<Rightarrow> VNil),
            CreatedAt \<mapsto> VFloat64 (float64_of_int64 now),
            UpdatedAt \<mapsto> VFloat64 (float64_of_int64 now)]"
    by (simp add: Create_def Let_def)
  with Some show ?thesis
    using ID_neq by (auto split: option.splits)
qed

theorem Create_response_witness:
  "(\<exists>r. fst (Create memory_driver 1000 ''507f1f77bcf86cd799439011'' ''things''
             (Some [''name'' \<mapsto> VString ''new'']) stored_things) = Inr (Some r, None) \<and>
        r ID = Some (VString ''507f1f77bcf86cd799439011'') \<and>
        r CreatedAt = r UpdatedAt \<and> r CreatedAt = Some (VFloat64 1000)) \<and>
   (\<exists>r. fst (Create memory_driver 1000 ''507f1f77bcf86cd799439011'' ''things''
             (Some [ID \<mapsto> VString ''43'']) stored_things) = Inr (Some r, None) \<and>
        r ID = Some (VString ''43'') \<and> r CreatedAt = r UpdatedAt)"
proof -
  let ?c1 = "Create memory_driver 1000 ''507f1f77bcf86cd799439011'' ''things''
               (Some [''name'' \<mapsto> VString ''new'']) stored_things"
  let ?c2 = "Create memory_driver 1000 ''507f1f77bcf86cd799439011'' ''things''
               (Some [ID \<mapsto> VString ''43'']) stored_things"
  have small: "float64_of_int64 1000 = 1000"
    by (simp add: float64_of_int64_exact)
  have "\<exists>r. fst ?c1 = Inr (Some r, None)"
    by (simp add: Create_def Let_def retry_def retry_loop.simps memory_driver_def stored_things_def
        ID_def CreatedAt_def UpdatedAt_def)
  then obtain r1 where r1: "fst ?c1 = Inr (Some r1, None)" ..
  from Create_response [OF r1]
  have 1: "r1 ID = Some (VString ''507f1f77bcf86cd799439011'') \<and>
        r1 CreatedAt = r1 UpdatedAt \<and> r1 CreatedAt = Some (VFloat64 1000)"
    by (auto simp: small ID_def)
  have "\<exists>r. fst ?c2 = Inr (Some r, None)"
    by (simp add: Create_def Let_def retry_def retry_loop.simps memory_driver_def stored_things_def
        ID_def CreatedAt_def UpdatedAt_def)
  then obtain r2 where r2: "fst ?c2 = Inr (Some r2, None)" ..
  from Create_response [OF r2]
  have 2: "r2 ID = Some (VString ''43'') \<and> r2 CreatedAt = r2 UpdatedAt"
    by (auto simp: small ID_def)
  from r1 1 r2 2 show ?thesis by blast
qed

section \<open>Update\<close>

lemma Update_success:
  assumes "snd (fst (Update drv now collection id' (Some d) db)) = None"
  obtains found db1 db2 where
    "FindId_One drv collection id' db = (Inr found, db1)"
    "UpdateId drv collection id' (found ++ d(UpdatedAt \<mapsto> VInt32 (int32 now))) db1 = (None, db2)"
    "Update drv now collection id' (Some d) db =
       ((Some [UpdatedAt \<mapsto> VInt32 (int32 now)], None), db2, [])"
proof -
  obtain f db1 where f: "FindId_One drv collection id' db = (f, db1)"
    by (cases "FindId_One drv collection id' db")
  show thesis
  proof (cases f)
    case (Inl e)
    with assms f show ?thesis by (simp add: Update_def)
  next
    case (Inr found)
    let ?w = "found ++ d(UpdatedAt \<mapsto> VInt32 (int32 now))"
    obtain u db2 where u: "UpdateId drv collection id' ?w db1 = (u, db2)"
      by (cases "UpdateId drv collection id' ?w db1")
    show ?thesis
    proof (cases u)
      case (Some e)
      with assms f Inr u show ?thesis by (simp add: Update_def)
    next
      case None
      with f Inr u have "Update drv now collection id' (Some d) db =
         ((Some [UpdatedAt \<mapsto> VInt32 (int32 now)], None), db2, [])"
        by (simp add: Update_def)
      with f Inr u None that show ?thesis by simp
    qed
  qed
qed

text \<open>
  C4, as stated, fails: updating at Unix time 1000 a record whose \<^verbatim>\<open>updatedAt\<close> is 1000
  succeeds and writes \<^verbatim>\<open>updatedAt\<close> 1000, which is not greater; and the \<^verbatim>\<open>updatedAt\<close>
  that the body mentions is not the one written.
\<close>

theorem Update_same_second_counterexample:
  "snd (fst (Update memory_driver 1000 ''things'' ''42'' (Some rename_body) stored_things)) = None \<and>
   the (fst (snd (Update memory_driver 1000 ''things'' ''42'' (Some rename_body) stored_things)) ''42'')
      UpdatedAt = Some (VInt32 1000) \<and>
   numeric (VInt32 1000) = Some 1000 \<and>
   Option.bind (stored_thing UpdatedAt) numeric = Some 1000 \<and>
   rename_body UpdatedAt = Some (VFloat64 5)"
  by (simp add: Update_def memory_driver_def stored_things_def stored_thing_def rename_body_def
      int32_def map_add_def ID_def CreatedAt_def UpdatedAt_def)

text \<open>
  C4, amended: for every existing record and every non-nil update body, a successful
  \<^verbatim>\<open>Update\<close> writes back a record that has every field of the existing record that the
  body does not mention, other than \<^verbatim>\<open>updatedAt\<close>, unchanged; has the body's value for
  every field the body mentions, other than \<^verbatim>\<open>updatedAt\<close>; and has as \<^verbatim>\<open>updatedAt\<close> the
  Unix time of the call as an \<^verbatim>\<open>int32\<close>, which is also the response.
\<close>

theorem Update_merges:
  assumes "snd (fst (Update drv now collection id' (Some d) db)) = None"
  shows "\<exists>found db1 written.
           FindId_One drv collection id' db = (Inr found, db1) \<and>
           UpdateId drv collection id' written db1 =
             (None, fst (snd (Update drv now collection id' (Some d) db))) \<and>
           (\<forall>k. k \<noteq> UpdatedAt \<and> d k = None \<longrightarrow> written k = found k) \<and>
           (\<forall>k v. k \<noteq> UpdatedAt \<and> d k = Some v \<longrightarrow> written k = Some v) \<and>
           written UpdatedAt = Some (VInt32 (int32 now)) \<and>
           fst (fst (Update drv now collection id' (Some d) db)) =
             Some [UpdatedAt \<mapsto> VInt32 (int32 now)]"
proof -
  from assms obtain found db1 db2 where
    f: "FindId_One drv collection id' db = (Inr found, db1)" and
    u: "UpdateId drv collection id' (found ++ d(UpdatedAt \<mapsto> VInt32 (int32 now))) db1 = (None, db2)" and
    r: "Update drv now collection id' (Some d) db =
       ((Some [UpdatedAt \<mapsto> VInt32 (int32 now)], None), db2, [])"
    by (rule Update_success)
  let ?w = "found ++ d(UpdatedAt \<mapsto> VInt32 (int32 now))"
  have "\<forall>k. k \<noteq> UpdatedAt \<and> d k = None \<longrightarrow> ?w k = found k"
    by (simp add: map_add_def)
  moreover have "\<forall>k v. k \<noteq> UpdatedAt \<and> d k = Some v \<longrightarrow> ?w k = Some v"
    by (simp add: map_add_def)
  moreover have "?w UpdatedAt = Some (VInt32 (int32 now))"
    by (simp add: map_add_def)
  ultimately show ?thesis
    using f u r by (intro exI [of _ found] exI [of _ db1] exI [of _ ?w]) simp
qed

theorem Update_merges_witness:
  "snd (fst (Update memory_driver 2000 ''things'' ''42'' (Some [''name'' \<mapsto> VString ''new'']) stored_things)) = None \<and>
   (\<exists>written. fst (snd (Update memory_driver 2000 ''things'' ''42'' (Some [''name'' \<mapsto> VString ''new'']) stored_things)) ''42'' = Some written \<and>
      written ''name'' = Some (VString ''new'') \<and> written ''size'' = Some (VFloat64 3) \<and>
      written UpdatedAt = Some (VInt32 2000))"
proof -
  let ?u = "Update memory_driver 2000 ''things'' ''42'' (Some [''name'' \<mapsto> VString ''new'']) stored_things"
  have ok: "snd (fst ?u) = None"
    by (simp add: Update_def memory_driver_def stored_things_def stored_thing_def)
  from Update_merges [OF ok] obtain found db1 written where
    f: "FindId_One memory_driver ''things'' ''42'' stored_things = (Inr found, db1)" and
    u: "UpdateId memory_driver ''things'' ''42'' written db1 = (None, fst (snd ?u))" and
    keep: "\<forall>k. k \<noteq> UpdatedAt \<and> [''name'' \<mapsto> VString ''new''] k = None \<longrightarrow> written k = found k" and
    new: "\<forall>k v. k \<noteq> UpdatedAt \<and> [''name'' \<mapsto> VString ''new''] k = Some v \<longrightarrow> written k = Some v" and
    stamp: "written UpdatedAt = Some (VInt32 (int32 2000))"
    by blast
  from f have found: "found = stored_thing" "db1 = stored_things"
    by (simp_all add: memory_driver_def stored_things_def)
  have "UpdateId memory_driver ''things'' ''42'' written stored_things =
          (None, stored_things(''42'' \<mapsto> written))"
    by (simp add: memory_driver_def stored_things_def)
  with u found(2) have "fst (snd ?u) = stored_things(''42'' \<mapsto> written)"
    by (simp only: prod.inject)
  then have "fst (snd ?u) ''42'' = Some written"
    by (simp only: fun_upd_same)
  moreover from new have "written ''name'' = Some (VString ''new'')"
    by (simp add: UpdatedAt_def)
  moreover from keep found have "written ''size'' = Some (VFloat64 3)"
    by (simp add: UpdatedAt_def stored_thing_def ID_def CreatedAt_def)
  moreover from stamp have "written UpdatedAt = Some (VInt32 2000)"
    by (simp add: int32_def)
  ultimately show ?thesis using ok by blast
qed

section \<open>Query\<close>

text \<open>
  C2, as stated, fails: with the key \<^verbatim>\<open>where\<close> bound to the nil slice and the key
  \<^verbatim>\<open>aggregate\<close> bound to a value, the test \<^verbatim>\<open>parameters["where"] != nil\<close> fails, and
  \<^verbatim>\<open>Query\<close> goes on to index the nil slice and panics instead of returning an error.
\<close>

theorem Query_nil_where_counterexample:
  "nil_where ''where'' \<noteq> None \<and> nil_where ''aggregate'' \<noteq> None \<and>
   fst (Query example_runtime unreachable_driver ''things'' nil_where ()) = Inl IndexOutOfRange"
  by (simp add: nil_where_def Query_def map_index_def extractJsonParameter_def)

text \<open>
  C2, amended: for every collection and every parameter multimap that binds both the key
  \<^verbatim>\<open>where\<close> and the key \<^verbatim>\<open>aggregate\<close> to non-nil slices, \<^verbatim>\<open>Query\<close> returns a
  bad-request error with status 400, whatever the slices hold; nothing is decoded and the
  driver is not called.
\<close>

theorem Query_where_and_aggregate:
  assumes "ps ''where'' = Some (Some ws)" and "ps ''aggregate'' = Some (Some as)"
  shows "Query rt drv collection ps db =
     (Inr (Some Map.empty,
           Some \<lparr>Code = 400,
                 Message = ''Where and aggregate parameters cannot be used at the same request.''\<rparr>),
      db,
      [\<lparr>log_fields = [],
        log_msg = ''Mongo Error: Where and aggregate parameters cannot be used at the same request.''\<rparr>])"
  using assms by (simp add: Query_def map_index_def StatusBadRequest_def)

theorem Query_where_and_aggregate_witness:
  "map_option Code (snd (projr (fst
     (Query example_runtime unreachable_driver ''things'' where_and_aggregate ())))) = Some 400"
proof -
  have "where_and_aggregate ''where'' = Some (Some [''nonsense''])"
    and "where_and_aggregate ''aggregate'' = Some (Some [])"
    by (simp_all add: where_and_aggregate_def)
  from Query_where_and_aggregate [where rt = example_runtime and drv = unreachable_driver
      and collection = "''things''" and db = "()", OF this]
  show ?thesis
    by simp
qed









section \<open>extractIntParameter\<close>

lemma sint_int_of_float64:
  assumes "- (2 ^ 63) \<le> trunc_toward_zero x" and "trunc_toward_zero x < 2 ^ 63"
  shows "sint (int_of_float64 rt x) = trunc_toward_zero x"
proof -
  have "signed_take_bit 63 (trunc_toward_zero x) = trunc_toward_zero x"
    using assms by (simp add: signed_take_bit_int_eq_self)
  with assms show ?thesis
    by (simp add: int_of_float64_def Let_def sint_sbintrunc')
qed

lemma int_of_float64_unrepresentable:
  assumes "2 ^ 63 \<le> trunc_toward_zero x"
  shows "sint (int_of_float64 rt x) \<noteq> trunc_toward_zero x"
proof -
  have "sint (int_of_float64 rt x) < 2 ^ (LENGTH(64) - 1)"
    by (rule sint_lt)
  with assms show ?thesis by simp
qed

text \<open>
  C10, as stated, fails: the JSON number 9223372036854775808 is accepted, but the integer
  returned is not its truncation (here it is the least integer; on any platform it is
  below \<open>2 ^ 63\<close>, as \<open>int_of_float64_unrepresentable\<close> shows).
\<close>

theorem extractIntParameter_huge_counterexample:
  "extractIntParameter example_runtime huge_limit ''limit'' = Inr (- 9223372036854775808, True, None) \<and>
   fst (json_Unmarshal example_runtime ''9223372036854775808'') = VFloat64 9223372036854775808 \<and>
   trunc_toward_zero 9223372036854775808 = 9223372036854775808 \<and>
   sint (- 9223372036854775808 :: go_int) = - 9223372036854775808"
  by (simp add: huge_limit_def extractIntParameter_def example_runtime_def int_of_float64_def
      trunc_toward_zero_def quoted_def)

text \<open>
  C10, amended: for a key bound to a slice with a first element, \<^verbatim>\<open>extractIntParameter\<close>
  accepts every JSON number the decoder delivers, non-integral ones included, with no
  error, and the integer is the number truncated toward zero whenever that fits the 64-bit
  \<^verbatim>\<open>int\<close>; it reports the bad-request error "must be an integer" exactly when the
  decoded value is not a number.
\<close>

theorem extractIntParameter_number:
  assumes "ps key = Some (Some (param # rest))"
  shows "(\<forall>x. json_Unmarshal rt param = (VFloat64 x, None) \<longrightarrow>
            extractIntParameter rt ps key = Inr (int_of_float64 rt x, True, None) \<and>
            (- (2 ^ 63) \<le> trunc_toward_zero x \<and> trunc_toward_zero x < 2 ^ 63 \<longrightarrow>
               sint (int_of_float64 rt x) = trunc_toward_zero x)) \<and>
         ((\<exists>v h. extractIntParameter rt ps key =
                  Inr (v, h, Some \<lparr>Code = 400,
                         Message = ''The key '' @ apostrophe @ key @ apostrophe @ '' must be an integer.''\<rparr>))
            \<longleftrightarrow> TypeOf_Kind (fst (json_Unmarshal rt param)) \<noteq> Some KFloat64)"
proof -
  obtain v perr where u: "json_Unmarshal rt param = (v, perr)"
    by (cases "json_Unmarshal rt param")
  have diff: "''Parsing '' @ key @ '' parameter failed. Reason: '' @ reason \<noteq>
              ''The key '' @ apostrophe @ key @ apostrophe @ '' must be an integer.''" for reason
    by simp
  have num: "extractIntParameter rt ps key = Inr (int_of_float64 rt x, True, None)"
    if "json_Unmarshal rt param = (VFloat64 x, None)" for x
    using assms that by (simp add: extractIntParameter_def)
  have other: "extractIntParameter rt ps key =
      Inr (0, True, Some \<lparr>Code = 400,
             Message = ''The key '' @ apostrophe @ key @ apostrophe @ '' must be an integer.''\<rparr>)"
    if "TypeOf_Kind (fst (json_Unmarshal rt param)) \<noteq> Some KFloat64"
    using assms that u by (simp add: extractIntParameter_def StatusBadRequest_def)
  have only: "TypeOf_Kind (fst (json_Unmarshal rt param)) \<noteq> Some KFloat64"
    if "extractIntParameter rt ps key =
      Inr (v', h, Some \<lparr>Code = 400,
             Message = ''The key '' @ apostrophe @ key @ apostrophe @ '' must be an integer.''\<rparr>)"
    for v' h
  proof
    assume "TypeOf_Kind (fst (json_Unmarshal rt param)) = Some KFloat64"
    with u obtain x where "v = VFloat64 x"
      by (cases v) simp_all
    with assms u that diff show False
      by (cases perr) (simp_all add: extractIntParameter_def)
  qed
  from num other only show ?thesis
    using sint_int_of_float64 [of _ rt] by blast
qed

theorem extractIntParameter_number_witness:
  "extractIntParameter example_runtime fractional_limits ''limit'' = Inr (1, True, None) \<and>
   extractIntParameter example_runtime fractional_limits ''skip'' = Inr (- 1, True, None)"
proof -
  have l: "fractional_limits ''limit'' = Some (Some (''1.9'' # []))"
    and k: "fractional_limits ''skip'' = Some (Some (''-1.9'' # []))"
    by (simp_all add: fractional_limits_def)
  have ul: "json_Unmarshal example_runtime ''1.9'' = (VFloat64 (4278419646001971 / 2251799813685248), None)"
    and uk: "json_Unmarshal example_runtime ''-1.9'' = (VFloat64 (- (4278419646001971 / 2251799813685248)), None)"
    by (simp_all add: example_runtime_def quoted_def)
  have tl: "trunc_toward_zero (4278419646001971 / 2251799813685248) = 1"
    and tk: "trunc_toward_zero (- (4278419646001971 / 2251799813685248)) = - 1"
    by (simp_all add: trunc_toward_zero_def)
  have il: "int_of_float64 example_runtime (4278419646001971 / 2251799813685248) = 1"
    and ik: "int_of_float64 example_runtime (- (4278419646001971 / 2251799813685248)) = - 1"
    by (simp_all add: int_of_float64_def Let_def tl tk)
  from extractIntParameter_number [of fractional_limits "''limit''" "''1.9''" "[]" example_runtime,
      OF l, THEN conjunct1, THEN spec, THEN mp, OF ul]
    extractIntParameter_number [of fractional_limits "''skip''" "''-1.9''" "[]" example_runtime,
      OF k, THEN conjunct1, THEN spec, THEN mp, OF uk]
  show ?thesis
    by (simp add: il ik)
qed

end
